theory Spec2Isabelle
  imports Main
begin

section \<open>JavaScript values, as the ProjectManagement service meets them\<close>

text \<open>
  The service of \<^verbatim>\<open>src/project-management/project-management.ts\<close> reads
  loosely typed payloads (\<^verbatim>\<open>responseData: any\<close>). They are modelled as the values a
  parsed JSON document can hold. An object is an association list of the properties it
  exposes, read with \<open>map_of\<close>. Numbers are integers: the code only ever observes whether a number is
  zero. \<open>JNative\<close> stands for a built-in of the runtime (a function or object of the
  standard library), named; no payload holds one, a property read on a plain object can.
\<close>

datatype jsval =
    JUndefined
  | JNull
  | JBool bool
  | JNum int
  | JStr string
  | JArr "jsval list"
  | JObj "(string \<times> jsval) list"
  | JNative string

text \<open>
  Errors as values. \<open>FirebaseProjectManagementError code message data\<close> is the
  service's own error class (imported from \<^verbatim>\<open>../utils/error\<close>); \<open>data\<close> is the raw
  response an invalid-server-response error reports. \<open>TypeError\<close> is what the runtime
  raises on a property read from \<^verbatim>\<open>null\<close> or \<^verbatim>\<open>undefined\<close>.
  \<open>TransportError\<close> is any rejection of the request handler, passed through unchanged.
\<close>

datatype error =
    FirebaseProjectManagementError string string "jsval option"
  | TypeError
  | TransportError string

text \<open>Truthiness, as \<^verbatim>\<open>!x\<close>, \<^verbatim>\<open>x || y\<close> and \<^verbatim>\<open>if (x)\<close> test it.\<close>

fun truthy :: "jsval \<Rightarrow> bool" where
  "truthy JUndefined = False"
| "truthy JNull = False"
| "truthy (JBool b) = b"
| "truthy (JNum n) = (n \<noteq> 0)"
| "truthy (JStr s) = (s \<noteq> [])"
| "truthy (JArr xs) = True"
| "truthy (JObj fs) = True"
| "truthy (JNative n) = True"

text \<open>\<^verbatim>\<open>x || y\<close>\<close>

definition js_or :: "jsval \<Rightarrow> jsval \<Rightarrow> jsval" where
  "js_or x y = (if truthy x then x else y)"

text \<open>
  The property read \<^verbatim>\<open>v.k\<close>, for the keys this file reads (\<^verbatim>\<open>apps\<close>,
  \<^verbatim>\<open>nextPageToken\<close>, \<^verbatim>\<open>appId\<close>, \<^verbatim>\<open>platform\<close>, \<^verbatim>\<open>name\<close>,
  \<^verbatim>\<open>displayName\<close>): it raises on \<^verbatim>\<open>null\<close> and \<^verbatim>\<open>undefined\<close>, finds an
  object's property, and is \<^verbatim>\<open>undefined\<close> on every other value (no primitive, array or
  prototype carries one of these keys).
\<close>

fun get_prop :: "jsval \<Rightarrow> string \<Rightarrow> error + jsval" where
  "get_prop JUndefined k = Inl TypeError"
| "get_prop JNull k = Inl TypeError"
| "get_prop (JObj fs) k = Inr (case map_of fs k of None \<Rightarrow> JUndefined | Some v \<Rightarrow> v)"
| "get_prop v k = Inr JUndefined"

text \<open>
  \<^verbatim>\<open>k in v\<close>: whether the object exposes the property. It is reached only behind
  \<^verbatim>\<open>isNonNullObject(v)\<close>, so the operator's own throw on a primitive never happens.
\<close>

fun has_property :: "string \<Rightarrow> jsval \<Rightarrow> bool" where
  "has_property k (JObj fs) = (k \<in> fst ` set fs)"
| "has_property k v = False"

text \<open>The string held by a value already checked with \<open>isNonEmptyString\<close>.\<close>

fun str_of :: "jsval \<Rightarrow> string" where
  "str_of (JStr s) = s"
| "str_of v = []"

text \<open>
  Modelled from the spec: the validators of \<^verbatim>\<open>../utils/validator\<close>, which is not among
  the sources. The specification names the shapes they test: a non-null object, a non-empty
  string, an array. An array is not taken for an object here.
\<close>

fun isNonNullObject :: "jsval \<Rightarrow> bool" where
  "isNonNullObject (JObj fs) = True"
| "isNonNullObject v = False"

fun isNonEmptyString :: "jsval \<Rightarrow> bool" where
  "isNonEmptyString (JStr s) = (s \<noteq> [])"
| "isNonEmptyString v = False"

fun isArray :: "jsval \<Rightarrow> bool" where
  "isArray (JArr xs) = True"
| "isArray v = False"

text \<open>
  Modelled from the spec: \<^verbatim>\<open>assertServerResponse\<close> of
  \<^verbatim>\<open>./project-management-api-request\<close>, which is not among the sources. On a violated
  condition it fails with the classified invalid-server-response error, carrying the caller's
  message and the raw response.
\<close>

definition assertServerResponse :: "bool \<Rightarrow> jsval \<Rightarrow> string \<Rightarrow> error + unit" where
  "assertServerResponse condition responseData message =
     (if condition then Inr ()
      else Inl (FirebaseProjectManagementError ''invalid-server-response'' message
                  (Some responseData)))"

text \<open>
  \<^verbatim>\<open>Array.prototype.map\<close> with a callback that may throw: the entries are visited in
  order and the first throw ends the call.
\<close>

fun map_result :: "('a \<Rightarrow> error + 'b) \<Rightarrow> 'a list \<Rightarrow> error + 'b list" where
  "map_result f [] = Inr []"
| "map_result f (x # xs) =
     (case f x of
        Inl e \<Rightarrow> Inl e
      | Inr y \<Rightarrow> (case map_result f xs of Inl e \<Rightarrow> Inl e | Inr ys \<Rightarrow> Inr (y # ys)))"


section \<open>The request handler\<close>

text \<open>
  \<^verbatim>\<open>ProjectManagementRequestHandler\<close> is the external collaborator that performs the
  network calls; the service only invokes it. It is a parameter of the model: a function from
  the history of invocations (oldest first, the current one last) to the outcome of the
  current one, a parsed response or a rejection. The state of the network is the log of
  invocations made so far.
\<close>

datatype request =
    ListAndroidApps string jsval
  | ListIosApps string jsval
  | CreateAndroidApp string jsval jsval
  | CreateIosApp string jsval jsval
  | ListAppMetadata string
  | SetDisplayName string jsval
  | DeleteShaCertificate string

type_synonym ProjectManagementRequestHandler = "request list \<Rightarrow> error + jsval"

definition invoke ::
  "ProjectManagementRequestHandler \<Rightarrow> request \<Rightarrow> request list \<Rightarrow> (error + jsval) \<times> request list"
where
  "invoke requestHandler r log = (requestHandler (log @ [r]), log @ [r])"


section \<open>Domain entities\<close>

text \<open>
  Modelled from the spec: \<^verbatim>\<open>AndroidApp\<close> and \<^verbatim>\<open>IosApp\<close> of
  \<^verbatim>\<open>./android-app\<close> and \<^verbatim>\<open>./ios-app\<close>, which are not among the sources. A handle is
  identified by its appId; the request handler it borrows is the shared one.
\<close>

datatype app = AndroidApp string | IosApp string

text \<open>
  Modelled from the spec: the \<^verbatim>\<open>AppPlatform\<close> enum of \<^verbatim>\<open>./app-metadata\<close>, which is
  not among the sources: its members are \<^verbatim>\<open>ANDROID\<close>, \<^verbatim>\<open>IOS\<close> and
  \<^verbatim>\<open>PLATFORM_UNKNOWN\<close>, each holding its own name.
\<close>

definition AppPlatform :: "(string \<times> jsval) list" where
  "AppPlatform =
     [(''PLATFORM_UNKNOWN'', JStr ''PLATFORM_UNKNOWN''),
      (''IOS'', JStr ''IOS''),
      (''ANDROID'', JStr ''ANDROID'')]"

definition PLATFORM_UNKNOWN :: jsval where
  "PLATFORM_UNKNOWN = JStr ''PLATFORM_UNKNOWN''"

text \<open>
  The members every plain JavaScript object inherits from \<^verbatim>\<open>Object.prototype\<close>. An enum
  is such an object at run time, and the computed read \<^verbatim>\<open>(AppPlatform as any)[key]\<close>
  finds an inherited member when the enum has no own member of that name.
\<close>

definition Object_prototype :: "(string \<times> jsval) list" where
  "Object_prototype =
     [(''constructor'', JNative ''Object''),
      (''__defineGetter__'', JNative ''Object.prototype.__defineGetter__''),
      (''__defineSetter__'', JNative ''Object.prototype.__defineSetter__''),
      (''hasOwnProperty'', JNative ''Object.prototype.hasOwnProperty''),
      (''__lookupGetter__'', JNative ''Object.prototype.__lookupGetter__''),
      (''__lookupSetter__'', JNative ''Object.prototype.__lookupSetter__''),
      (''isPrototypeOf'', JNative ''Object.prototype.isPrototypeOf''),
      (''propertyIsEnumerable'', JNative ''Object.prototype.propertyIsEnumerable''),
      (''toString'', JNative ''Object.prototype.toString''),
      (''valueOf'', JNative ''Object.prototype.valueOf''),
      (''__proto__'', JNative ''Object.prototype''),
      (''toLocaleString'', JNative ''Object.prototype.toLocaleString'')]"

text \<open>\<^verbatim>\<open>(AppPlatform as any)[key]\<close>\<close>

definition AppPlatform_member :: "string \<Rightarrow> jsval" where
  "AppPlatform_member key =
     (case map_of AppPlatform key of
        Some v \<Rightarrow> v
      | None \<Rightarrow> (case map_of Object_prototype key of Some v \<Rightarrow> v | None \<Rightarrow> JUndefined))"

record AppMetadata =
  md_appId :: string
  md_platform :: jsval
  md_projectId :: string
  md_resourceName :: jsval
  md_displayName :: "jsval option"

text \<open>
  Modelled from the spec: \<^verbatim>\<open>ShaCertificate\<close> of \<^verbatim>\<open>./android-app\<close>, which is not
  among the sources. Its resourceName is absent until the certificate has been registered
  with the server.
\<close>

record ShaCertificate =
  cert_shaHash :: string
  cert_resourceName :: "string option"


section \<open>The ProjectManagement service\<close>

record ProjectManagement =
  pm_app :: jsval
  pm_projectId :: string
  pm_resourceName :: string


text \<open>\<^verbatim>\<open>androidApp\<close>, \<^verbatim>\<open>iosApp\<close>, \<^verbatim>\<open>shaCertificate\<close>: no RPC is made.\<close>

definition androidApp :: "string \<Rightarrow> app" where
  "androidApp appId = AndroidApp appId"

definition iosApp :: "string \<Rightarrow> app" where
  "iosApp appId = IosApp appId"

definition shaCertificate :: "string \<Rightarrow> ShaCertificate" where
  "shaCertificate shaHash = \<lparr>cert_shaHash = shaHash, cert_resourceName = None\<rparr>"

text \<open>The \<^verbatim>\<open>.then\<close> callbacks of \<^verbatim>\<open>createAndroidApp\<close> and \<^verbatim>\<open>createIosApp\<close>.\<close>

definition createAndroidApp_then :: "jsval \<Rightarrow> error + app" where
  \<open>createAndroidApp_then responseData =
     (case assertServerResponse (isNonNullObject responseData) responseData
             ''createAndroidApp()'s responseData must be a non-null object.'' of
        Inl e \<Rightarrow> Inl e
      | Inr u \<Rightarrow>
          (case get_prop responseData ''appId'' of
             Inl e \<Rightarrow> Inl e
           | Inr appId \<Rightarrow>
               (case assertServerResponse (isNonEmptyString appId) responseData
                       ''"responseData.appId" field must be present in createAndroidApp()'s response data.'' of
                  Inl e \<Rightarrow> Inl e
                | Inr u \<Rightarrow> Inr (AndroidApp (str_of appId)))))\<close>

definition createIosApp_then :: "jsval \<Rightarrow> error + app" where
  \<open>createIosApp_then responseData =
     (case assertServerResponse (isNonNullObject responseData) responseData
             ''createIosApp()'s responseData must be a non-null object.'' of
        Inl e \<Rightarrow> Inl e
      | Inr u \<Rightarrow>
          (case get_prop responseData ''appId'' of
             Inl e \<Rightarrow> Inl e
           | Inr appId \<Rightarrow>
               (case assertServerResponse (isNonEmptyString appId) responseData
                       ''"responseData.appId" field must be present in createIosApp()'s response data.'' of
                  Inl e \<Rightarrow> Inl e
                | Inr u \<Rightarrow> Inr (IosApp (str_of appId)))))\<close>

definition createAndroidApp ::
  "ProjectManagementRequestHandler \<Rightarrow> ProjectManagement \<Rightarrow> jsval \<Rightarrow> jsval \<Rightarrow> request list
     \<Rightarrow> (error + app) \<times> request list"
where
  "createAndroidApp requestHandler this packageName displayName log =
     (case invoke requestHandler
             (CreateAndroidApp (pm_resourceName this) packageName displayName) log of
        (Inl e, log') \<Rightarrow> (Inl e, log')
      | (Inr responseData, log') \<Rightarrow> (createAndroidApp_then responseData, log'))"

definition createIosApp ::
  "ProjectManagementRequestHandler \<Rightarrow> ProjectManagement \<Rightarrow> jsval \<Rightarrow> jsval \<Rightarrow> request list
     \<Rightarrow> (error + app) \<times> request list"
where
  "createIosApp requestHandler this bundleId displayName log =
     (case invoke requestHandler
             (CreateIosApp (pm_resourceName this) bundleId displayName) log of
        (Inl e, log') \<Rightarrow> (Inl e, log')
      | (Inr responseData, log') \<Rightarrow> (createIosApp_then responseData, log'))"

definition assertListAppsResponseData :: "jsval \<Rightarrow> string \<Rightarrow> error + unit" where
  \<open>assertListAppsResponseData responseData callerName =
     (case assertServerResponse (isNonNullObject responseData) responseData
             (callerName @ '''s responseData must be a non-null object.'') of
        Inl e \<Rightarrow> Inl e
      | Inr u \<Rightarrow>
          (case get_prop responseData ''apps'' of
             Inl e \<Rightarrow> Inl e
           | Inr apps \<Rightarrow>
               (if truthy apps then
                  assertServerResponse (isArray apps) responseData
                    (''"apps" field must be present in the '' @ callerName @ '' response data.'')
                else Inr ())))\<close>

text \<open>The callback \<^verbatim>\<open>transformResponseToAppMetadata\<close> maps over the entries.\<close>

definition transformResponseToAppMetadata_entry ::
  "ProjectManagement \<Rightarrow> jsval \<Rightarrow> jsval \<Rightarrow> error + AppMetadata"
where
  \<open>transformResponseToAppMetadata_entry this responseData appJson =
     (case get_prop appJson ''appId'' of
        Inl e \<Rightarrow> Inl e
      | Inr appId \<Rightarrow>
     (case assertServerResponse (isNonEmptyString appId) responseData
             ''"apps[].appId" field must be present in the listAppMetadata() response data.'' of
        Inl e \<Rightarrow> Inl e
      | Inr u \<Rightarrow>
     (case get_prop appJson ''platform'' of
        Inl e \<Rightarrow> Inl e
      | Inr platform \<Rightarrow>
     (case assertServerResponse (isNonEmptyString platform) responseData
             ''"apps[].platform" field must be present in the listAppMetadata() response data.'' of
        Inl e \<Rightarrow> Inl e
      | Inr u \<Rightarrow>
     (case get_prop appJson ''name'' of
        Inl e \<Rightarrow> Inl e
      | Inr name \<Rightarrow>
     (case get_prop appJson ''displayName'' of
        Inl e \<Rightarrow> Inl e
      | Inr displayName \<Rightarrow>
          Inr \<lparr>md_appId = str_of appId,
               md_platform = js_or (AppPlatform_member (str_of platform)) PLATFORM_UNKNOWN,
               md_projectId = pm_projectId this,
               md_resourceName = name,
               md_displayName = (if truthy displayName then Some displayName else None)\<rparr>))))))\<close>

definition transformResponseToAppMetadata ::
  "ProjectManagement \<Rightarrow> jsval \<Rightarrow> error + AppMetadata list"
where
  "transformResponseToAppMetadata this responseData =
     (case assertListAppsResponseData responseData ''listAppMetadata()'' of
        Inl e \<Rightarrow> Inl e
      | Inr u \<Rightarrow>
          (case get_prop responseData ''apps'' of
             Inl e \<Rightarrow> Inl e
           | Inr apps \<Rightarrow>
               (if \<not> truthy apps then Inr []
                else (case apps of
                        JArr entries \<Rightarrow>
                          map_result (transformResponseToAppMetadata_entry this responseData) entries
                      | _ \<Rightarrow> Inl TypeError))))"

definition listAppMetadata ::
  "ProjectManagementRequestHandler \<Rightarrow> ProjectManagement \<Rightarrow> request list
     \<Rightarrow> (error + AppMetadata list) \<times> request list"
where
  "listAppMetadata requestHandler this log =
     (case invoke requestHandler (ListAppMetadata (pm_resourceName this)) log of
        (Inl e, log') \<Rightarrow> (Inl e, log')
      | (Inr responseData, log') \<Rightarrow> (transformResponseToAppMetadata this responseData, log'))"

definition setDisplayName ::
  "ProjectManagementRequestHandler \<Rightarrow> ProjectManagement \<Rightarrow> jsval \<Rightarrow> request list
     \<Rightarrow> (error + unit) \<times> request list"
where
  "setDisplayName requestHandler this newDisplayName log =
     (case invoke requestHandler (SetDisplayName (pm_resourceName this) newDisplayName) log of
        (Inl e, log') \<Rightarrow> (Inl e, log')
      | (Inr responseData, log') \<Rightarrow> (Inr (), log'))"


section \<open>Paginated iteration\<close>

datatype platform = android | ios

text \<open>
  The two variables \<^verbatim>\<open>iteratePlatformApps\<close> closes over, and the result of a pull.
\<close>

record iterator =
  fetching :: bool
  nextPageToken :: jsval

record IteratorResult =
  result_done :: bool
  result_value :: "app list"

text \<open>A fresh iteration: \<^verbatim>\<open>let fetching = true; let nextPageToken: string;\<close>\<close>

definition iteratePlatformApps :: iterator where
  "iteratePlatformApps = \<lparr>fetching = True, nextPageToken = JUndefined\<rparr>"

text \<open>The callback \<^verbatim>\<open>next\<close> maps over the entries of a page.\<close>

definition iteratePlatformApps_entry :: "platform \<Rightarrow> string \<Rightarrow> jsval \<Rightarrow> jsval \<Rightarrow> error + app" where
  \<open>iteratePlatformApps_entry platform callerName responseData appJson =
     (case get_prop appJson ''appId'' of
        Inl e \<Rightarrow> Inl e
      | Inr appId \<Rightarrow>
          (case assertServerResponse (isNonEmptyString appId) responseData
                  (''"apps[].appId" field must be present in the '' @ callerName
                     @ '' response data.'') of
             Inl e \<Rightarrow> Inl e
           | Inr u \<Rightarrow>
               (if platform = android then Inr (AndroidApp (str_of appId))
                else Inr (IosApp (str_of appId)))))\<close>

text \<open>
  The request \<^verbatim>\<open>next\<close> sends: \<^verbatim>\<open>listAndroidApps\<close> or \<^verbatim>\<open>listIosApps\<close>,
  with the service's resource name and the stored page token.
\<close>

definition listApps_request :: "ProjectManagement \<Rightarrow> platform \<Rightarrow> jsval \<Rightarrow> request" where
  "listApps_request this platform token =
     (if platform = android then ListAndroidApps (pm_resourceName this) token
      else ListIosApps (pm_resourceName this) token)"

text \<open>
  \<^verbatim>\<open>next\<close>: one pull. The state is the iterator's two variables and the log of
  request-handler invocations.
\<close>

definition iteratePlatformApps_next ::
  "ProjectManagementRequestHandler \<Rightarrow> ProjectManagement \<Rightarrow> platform \<Rightarrow> string
     \<Rightarrow> iterator \<times> request list \<Rightarrow> (error + IteratorResult) \<times> (iterator \<times> request list)"
where
  "iteratePlatformApps_next requestHandler this platform callerName s =
     (case s of (it, log) \<Rightarrow>
        if \<not> fetching it then (Inr \<lparr>result_done = True, result_value = []\<rparr>, (it, log))
        else
          (case invoke requestHandler
                  (listApps_request this platform (nextPageToken it)) log of
             (Inl e, log') \<Rightarrow> (Inl e, (it, log'))
           | (Inr responseData, log') \<Rightarrow>
               (case assertListAppsResponseData responseData callerName of
                  Inl e \<Rightarrow> (Inl e, (it, log'))
                | Inr u \<Rightarrow>
                    (case get_prop responseData ''nextPageToken'' of
                       Inl e \<Rightarrow> (Inl e, (it, log'))
                     | Inr token \<Rightarrow>
                         (let it' = \<lparr>fetching = (if \<not> truthy token then False else fetching it),
                                     nextPageToken = token\<rparr>
                          in case get_prop responseData ''apps'' of
                               Inl e \<Rightarrow> (Inl e, (it', log'))
                             | Inr apps \<Rightarrow>
                                 (case js_or apps (JArr []) of
                                    JArr entries \<Rightarrow>
                                      (case map_result
                                              (iteratePlatformApps_entry platform callerName
                                                 responseData) entries of
                                         Inl e \<Rightarrow> (Inl e, (it', log'))
                                       | Inr apps' \<Rightarrow>
                                           (Inr \<lparr>result_done = False, result_value = apps'\<rparr>,
                                            (it', log')))
                                  | _ \<Rightarrow> (Inl TypeError, (it', log'))))))))"

text \<open>\<^verbatim>\<open>iterateAndroidApps\<close> and \<^verbatim>\<open>iterateIosApps\<close>: the pulls of their iterators.\<close>

definition iterateAndroidApps_next ::
  "ProjectManagementRequestHandler \<Rightarrow> ProjectManagement
     \<Rightarrow> iterator \<times> request list \<Rightarrow> (error + IteratorResult) \<times> (iterator \<times> request list)"
where
  "iterateAndroidApps_next requestHandler this =
     iteratePlatformApps_next requestHandler this android ''iterateAndroidApps()''"

definition iterateIosApps_next ::
  "ProjectManagementRequestHandler \<Rightarrow> ProjectManagement
     \<Rightarrow> iterator \<times> request list \<Rightarrow> (error + IteratorResult) \<times> (iterator \<times> request list)"
where
  "iterateIosApps_next requestHandler this =
     iteratePlatformApps_next requestHandler this ios ''iterateIosApps()''"

text \<open>
  \<open>n\<close> successive pulls of one iterator, each begun when the one before has settled: their
  results (a rejected pull does not stop the caller from pulling again), and the state they
  leave.
\<close>

fun pulls ::
  "(iterator \<times> request list \<Rightarrow> (error + IteratorResult) \<times> (iterator \<times> request list))
     \<Rightarrow> nat \<Rightarrow> iterator \<times> request list
     \<Rightarrow> (error + IteratorResult) list \<times> (iterator \<times> request list)"
where
  "pulls nxt 0 s = ([], s)"
| "pulls nxt (Suc n) s =
     (case nxt s of (r, s') \<Rightarrow> (case pulls nxt n s' of (rs, s'') \<Rightarrow> (r # rs, s'')))"


section \<open>Deleting a certificate\<close>

text \<open>
  Modelled from the spec: \<^verbatim>\<open>AndroidApp.deleteShaCertificate\<close> of
  \<^verbatim>\<open>./android-app\<close>, which is not among the sources (only the integration test that
  calls it is). When the certificate's resourceName is empty or absent it fails at once with
  an \<^verbatim>\<open>invalid-argument\<close> error saying so (the message is the one the integration test
  expects); otherwise it asks the request handler to delete the resource.
\<close>

definition deleteShaCertificate ::
  "ProjectManagementRequestHandler \<Rightarrow> ShaCertificate \<Rightarrow> request list
     \<Rightarrow> (error + unit) \<times> request list"
where
  "deleteShaCertificate requestHandler certificateToDelete log =
     (case cert_resourceName certificateToDelete of
        None \<Rightarrow>
          (Inl (FirebaseProjectManagementError ''invalid-argument''
                 ''Specified certificate does not include a resourceName'' None), log)
      | Some resourceName \<Rightarrow>
          if resourceName = [] then
            (Inl (FirebaseProjectManagementError ''invalid-argument''
                   ''Specified certificate does not include a resourceName'' None), log)
          else
            (case invoke requestHandler (DeleteShaCertificate resourceName) log of
               (Inl e, log') \<Rightarrow> (Inl e, log')
             | (Inr responseData, log') \<Rightarrow> (Inr (), log')))"


section \<open>Vocabulary of the specification\<close>

text \<open>
  The field of a payload as the specification speaks of it: the value stored under the key,
  \<^verbatim>\<open>undefined\<close> when there is none (also on a value that has no fields at all).
\<close>

definition field :: "jsval \<Rightarrow> string \<Rightarrow> jsval" where
  "field v k = (case get_prop v k of Inl e \<Rightarrow> JUndefined | Inr x \<Rightarrow> x)"

text \<open>The entries of a listing page, and the handles they stand for.\<close>

definition page_entries :: "jsval \<Rightarrow> jsval list" where
  "page_entries p = (case field p ''apps'' of JArr es \<Rightarrow> es | _ \<Rightarrow> [])"








section \<open>Example payloads and request handlers\<close>

text \<open>
  A service for the project \<^verbatim>\<open>demo\<close>, a request handler that answers every request with the
  same response, and the two-page listing of the specification's example.
\<close>

definition demo_project :: ProjectManagement where
  "demo_project = \<lparr>pm_app = JObj [(''options'', JObj [])], pm_projectId = ''demo'',
                    pm_resourceName = ''projects/demo''\<rparr>"

definition answers :: "jsval \<Rightarrow> ProjectManagementRequestHandler" where
  "answers r log = Inr r"

definition page1 :: jsval where
  "page1 = JObj [(''apps'', JArr [JObj [(''appId'', JStr ''a1'')]]), (''nextPageToken'', JStr ''tok'')]"

definition page2 :: jsval where
  "page2 = JObj [(''apps'', JArr [JObj [(''appId'', JStr ''a2'')]])]"

definition two_pages :: ProjectManagementRequestHandler where
  "two_pages log =
     (if log = [ListAndroidApps ''projects/demo'' JUndefined] then Inr page1
      else if log = [ListAndroidApps ''projects/demo'' JUndefined,
                     ListAndroidApps ''projects/demo'' (JStr ''tok'')] then Inr page2
      else Inl (TransportError ''unexpected request''))"

text \<open>
  A page whose only entry has an empty appId, followed by a good page; a listing whose
  platform names a member every object inherits; a listing with a \<^verbatim>\<open>null\<close> entry; a
  listing whose entries have no string \<^verbatim>\<open>name\<close>; the response to a create call.
\<close>

definition bad_page :: jsval where
  "bad_page = JObj [(''apps'', JArr [JObj [(''appId'', JStr [])]]), (''nextPageToken'', JStr ''tok'')]"

definition bad_then_good :: ProjectManagementRequestHandler where
  "bad_then_good log =
     (if log = [ListIosApps ''projects/demo'' JUndefined] then Inr bad_page
      else if log = [ListIosApps ''projects/demo'' JUndefined,
                     ListIosApps ''projects/demo'' (JStr ''tok'')] then Inr page2
      else Inl (TransportError ''unexpected request''))"

definition inherited_platform_listing :: jsval where
  "inherited_platform_listing =
     JObj [(''apps'', JArr [JObj [(''appId'', JStr ''a1''), (''platform'', JStr ''constructor'')]])]"

definition null_entry_listing :: jsval where
  "null_entry_listing = JObj [(''apps'', JArr [JNull])]"

definition unnamed_listing :: jsval where
  "unnamed_listing =
     JObj [(''apps'', JArr [JObj [(''appId'', JStr ''a1''), (''platform'', JStr ''IOS'')],
                            JObj [(''appId'', JStr ''a2''), (''platform'', JStr ''ANDROID''),
                                  (''name'', JNum 7)]])]"

definition created_response :: jsval where
  "created_response = JObj [(''appId'', JStr ''new1''), (''name'', JStr ''projects/demo/androidApps/new1'')]"






section \<open>Reading a payload\<close>

lemma get_prop_obj: "isNonNullObject v \<Longrightarrow> get_prop v k = Inr (field v k)"
  by (cases v) (simp_all add: field_def)

lemma get_prop_nonempty: "isNonEmptyString (field v k) \<Longrightarrow> get_prop v k' = Inr (field v k')"
  by (cases v) (simp_all add: field_def)

lemma field_absent: "isNonNullObject r \<Longrightarrow> \<not> has_property k r \<Longrightarrow> field r k = JUndefined"
  by (cases r) (auto simp: field_def map_of_eq_None_iff[symmetric] split: option.splits)

lemma map_result_ok:
  "list_all (\<lambda>x. f x = Inr (g x)) xs \<Longrightarrow> map_result f xs = Inr (map g xs)"
  by (induction xs) simp_all

lemma map_result_bad:
  "x \<in> set xs \<Longrightarrow> f x = Inl err \<Longrightarrow> \<exists>err'. map_result f xs = Inl err'"
proof (induction xs)
  case Nil
  then show ?case by simp
next
  case (Cons a xs)
  show ?case
  proof (cases "f a")
    case (Inl e)
    then show ?thesis by simp
  next
    case (Inr y)
    with Cons.prems have "x \<in> set xs" by auto
    then obtain err' where "map_result f xs = Inl err'"
      using Cons.IH Cons.prems(2) by blast
    with Inr show ?thesis by simp
  qed
qed

lemma assertList_ok_obj: "assertListAppsResponseData r c = Inr u \<Longrightarrow> isNonNullObject r"
  by (auto simp: assertListAppsResponseData_def assertServerResponse_def
      split: if_splits sum.splits)

lemma assertList_ok_apps:
  "assertListAppsResponseData r c = Inr u \<Longrightarrow> truthy (field r ''apps'')
     \<Longrightarrow> isArray (field r ''apps'')"
  by (cases r)
    (auto simp: assertListAppsResponseData_def assertServerResponse_def field_def
      split: if_splits sum.splits)




section \<open>One pull\<close>

lemma next_exhausted:
  "\<not> fetching it \<Longrightarrow>
   iteratePlatformApps_next h this pf c (it, log)
     = (Inr \<lparr>result_done = True, result_value = []\<rparr>, (it, log))"
  by (simp add: iteratePlatformApps_next_def)

lemma pulls_exhausted:
  "\<not> fetching it \<Longrightarrow>
   pulls (iteratePlatformApps_next h this pf c) k (it, log)
     = (replicate k (Inr \<lparr>result_done = True, result_value = []\<rparr>), (it, log))"
  by (induction k) (simp_all add: next_exhausted)


text \<open>
  A pull that fetches: once the response has passed \<open>assertListAppsResponseData\<close>, the
  cursor and the flag are those of the response, whatever the entries then do.
\<close>

lemma next_fetching:
  assumes "fetching it"
    and "h (log @ [listApps_request this pf (nextPageToken it)]) = Inr r"
    and "assertListAppsResponseData r c = Inr ()"
  shows "iteratePlatformApps_next h this pf c (it, log)
     = (case map_result (iteratePlatformApps_entry pf c r) (page_entries r) of
          Inl e \<Rightarrow> Inl e
        | Inr apps \<Rightarrow> Inr \<lparr>result_done = False, result_value = apps\<rparr>,
        (\<lparr>fetching = truthy (field r ''nextPageToken''),
          nextPageToken = field r ''nextPageToken''\<rparr>,
         log @ [listApps_request this pf (nextPageToken it)]))"
proof -
  have obj: "isNonNullObject r" using assms(3) by (rule assertList_ok_obj)
  have arr: "truthy (field r ''apps'') \<Longrightarrow> isArray (field r ''apps'')"
    using assms(3) by (rule assertList_ok_apps)
  show ?thesis
  proof (cases "truthy (field r ''apps'')")
    case True
    then obtain es where es: "field r ''apps'' = JArr es"
      using arr by (cases "field r ''apps''") simp_all
    show ?thesis
      using assms es
      by (simp add: iteratePlatformApps_next_def invoke_def get_prop_obj[OF obj]
          js_or_def Let_def page_entries_def split: sum.splits)
  next
    case False
    then have ne: "page_entries r = []"
      by (cases "field r ''apps''") (simp_all add: page_entries_def)
    show ?thesis
      using assms False
      by (simp add: iteratePlatformApps_next_def invoke_def get_prop_obj[OF obj]
          js_or_def Let_def ne split: sum.splits)
  qed
qed




lemma next_log:
  "fetching it \<Longrightarrow>
   snd (snd (iteratePlatformApps_next h this pf c (it, log)))
     = log @ [listApps_request this pf (nextPageToken it)]"
  by (simp add: iteratePlatformApps_next_def invoke_def Let_def
      split: sum.splits jsval.splits prod.splits)

lemma entry_bad:
  "\<not> isNonEmptyString (field e ''appId'') \<Longrightarrow> \<exists>err. iteratePlatformApps_entry pf c r e = Inl err"
  by (cases e) (auto simp: iteratePlatformApps_entry_def assertServerResponse_def field_def)


section \<open>Listing metadata\<close>

lemma md_entry_ok:
  "isNonEmptyString (field e ''appId'') \<Longrightarrow> isNonEmptyString (field e ''platform'') \<Longrightarrow>
   transformResponseToAppMetadata_entry this r e
     = Inr \<lparr>md_appId = str_of (field e ''appId''),
            md_platform = js_or (AppPlatform_member (str_of (field e ''platform''))) PLATFORM_UNKNOWN,
            md_projectId = pm_projectId this,
            md_resourceName = field e ''name'',
            md_displayName = (if truthy (field e ''displayName'')
                              then Some (field e ''displayName'') else None)\<rparr>"
  by (simp add: transformResponseToAppMetadata_entry_def get_prop_nonempty assertServerResponse_def)

lemma transform_array:
  "isNonNullObject r \<Longrightarrow> field r ''apps'' = JArr es \<Longrightarrow>
   transformResponseToAppMetadata this r
     = map_result (transformResponseToAppMetadata_entry this r) es"
  by (simp add: transformResponseToAppMetadata_def assertListAppsResponseData_def
      assertServerResponse_def get_prop_obj)

lemma md_entry_bad:
  assumes "e \<noteq> JNull" and "e \<noteq> JUndefined"
    and "\<not> (isNonEmptyString (field e ''appId'') \<and> isNonEmptyString (field e ''platform''))"
  shows "\<exists>msg. transformResponseToAppMetadata_entry this r e
           = Inl (FirebaseProjectManagementError ''invalid-server-response'' msg (Some r))"
  using assms
  by (cases e)
    (auto simp: transformResponseToAppMetadata_entry_def assertServerResponse_def field_def)

lemma entries_rejected:
  assumes "\<forall>e\<in>set es. e \<noteq> JNull \<and> e \<noteq> JUndefined"
    and "\<exists>e\<in>set es. \<not> (isNonEmptyString (field e ''appId'')
                          \<and> isNonEmptyString (field e ''platform''))"
  shows "\<exists>msg. map_result (transformResponseToAppMetadata_entry this r) es
           = Inl (FirebaseProjectManagementError ''invalid-server-response'' msg (Some r))"
  using assms
proof (induction es)
  case Nil
  then show ?case by simp
next
  case (Cons a es)
  show ?case
  proof (cases "isNonEmptyString (field a ''appId'') \<and> isNonEmptyString (field a ''platform'')")
    case False
    from Cons.prems(1) have "a \<noteq> JNull" and "a \<noteq> JUndefined" by simp_all
    from md_entry_bad[OF this False, of this r] show ?thesis by auto
  next
    case True
    then have ok: "\<exists>m. transformResponseToAppMetadata_entry this r a = Inr m"
      by (simp add: md_entry_ok)
    from True Cons.prems(2)
    have "\<exists>e\<in>set es. \<not> (isNonEmptyString (field e ''appId'')
                          \<and> isNonEmptyString (field e ''platform''))"
      by auto
    moreover from Cons.prems(1) have "\<forall>e\<in>set es. e \<noteq> JNull \<and> e \<noteq> JUndefined" by simp
    ultimately obtain msg where
      "map_result (transformResponseToAppMetadata_entry this r) es
         = Inl (FirebaseProjectManagementError ''invalid-server-response'' msg (Some r))"
      using Cons.IH by blast
    with ok show ?thesis by auto
  qed
qed

text \<open>
  A listing whose entries are all values with properties is rejected with the classified
  error as soon as one of them lacks a non-empty string appId or platform.
\<close>

lemma listing_rejects_invalid_entry:
  assumes "h (log @ [ListAppMetadata (pm_resourceName this)]) = Inr r"
    and "isNonNullObject r"
    and "field r ''apps'' = JArr es"
    and "\<forall>e\<in>set es. e \<noteq> JNull \<and> e \<noteq> JUndefined"
    and "\<exists>e\<in>set es. \<not> (isNonEmptyString (field e ''appId'')
                          \<and> isNonEmptyString (field e ''platform''))"
  shows "\<exists>msg. listAppMetadata h this log
           = (Inl (FirebaseProjectManagementError ''invalid-server-response'' msg (Some r)),
              log @ [ListAppMetadata (pm_resourceName this)])"
  using entries_rejected[OF assms(4,5), of this r] assms(1-3)
  by (auto simp: listAppMetadata_def invoke_def transform_array)

text \<open>
  A platform name that is neither a member of the enum nor a member inherited from
  \<^verbatim>\<open>Object.prototype\<close> degrades to \<^verbatim>\<open>PLATFORM_UNKNOWN\<close>.
\<close>

lemma unknown_platform_degrades:
  assumes "key \<notin> fst ` set AppPlatform" and "key \<notin> fst ` set Object_prototype"
  shows "js_or (AppPlatform_member key) PLATFORM_UNKNOWN = PLATFORM_UNKNOWN"
proof -
  have "map_of AppPlatform key = None" using assms(1) by (simp add: map_of_eq_None_iff)
  moreover have "map_of Object_prototype key = None" using assms(2) by (simp add: map_of_eq_None_iff)
  ultimately show ?thesis by (simp add: AppPlatform_member_def js_or_def)
qed


section \<open>Verified properties\<close>



text \<open>
  C2. Once a pull has processed a response whose \<^verbatim>\<open>nextPageToken\<close> is empty or absent
  (falsy), the iterator is exhausted: every later pull returns \<^verbatim>\<open>done = true\<close> with an
  empty batch and leaves the iterator and the log of request-handler invocations as they
  were, so no further network call is made.
\<close>

theorem exhausted_iteration_stays_exhausted:
  assumes "fetching it"
    and "h (log @ [listApps_request this pf (nextPageToken it)]) = Inr r"
    and "assertListAppsResponseData r c = Inr ()"
    and "\<not> truthy (field r ''nextPageToken'')"
  shows "\<not> fetching (fst (snd (iteratePlatformApps_next h this pf c (it, log))))
    \<and> pulls (iteratePlatformApps_next h this pf c) k
          (snd (iteratePlatformApps_next h this pf c (it, log)))
        = (replicate k (Inr \<lparr>result_done = True, result_value = []\<rparr>),
           snd (iteratePlatformApps_next h this pf c (it, log)))"
  using next_fetching[of it h log this pf r c] assms
  by (simp add: pulls_exhausted)

text \<open>
  After the second page of the example, two more pulls report completion and the log still
  holds the two requests.
\<close>

theorem exhausted_iteration_stays_exhausted_witness:
  "pulls (iterateAndroidApps_next two_pages demo_project) 2
     (snd (iterateAndroidApps_next two_pages demo_project
        (\<lparr>fetching = True, nextPageToken = JStr ''tok''\<rparr>,
         [ListAndroidApps ''projects/demo'' JUndefined])))
   = ([Inr \<lparr>result_done = True, result_value = []\<rparr>,
       Inr \<lparr>result_done = True, result_value = []\<rparr>],
      (\<lparr>fetching = False, nextPageToken = JUndefined\<rparr>,
       [ListAndroidApps ''projects/demo'' JUndefined,
        ListAndroidApps ''projects/demo'' (JStr ''tok'')]))"
proof -
  let ?it = "\<lparr>fetching = True, nextPageToken = JStr ''tok''\<rparr>"
  let ?log = "[ListAndroidApps ''projects/demo'' JUndefined]"
  have a: "fetching ?it" by simp
  have b: "two_pages (?log @ [listApps_request demo_project android (nextPageToken ?it)]) = Inr page2"
    by (simp add: two_pages_def listApps_request_def demo_project_def)
  have c: "assertListAppsResponseData page2 ''iterateAndroidApps()'' = Inr ()"
    by (simp add: assertListAppsResponseData_def assertServerResponse_def page2_def)
  have d: "\<not> truthy (field page2 ''nextPageToken'')"
    by (simp add: field_def page2_def)
  have e: "snd (iteratePlatformApps_next two_pages demo_project android ''iterateAndroidApps()'' (?it, ?log))
     = (\<lparr>fetching = False, nextPageToken = JUndefined\<rparr>,
       [ListAndroidApps ''projects/demo'' JUndefined,
        ListAndroidApps ''projects/demo'' (JStr ''tok'')])"
    using next_fetching[of ?it two_pages ?log demo_project android page2 "''iterateAndroidApps()''"] a b c d
    by (simp add: field_def page2_def listApps_request_def demo_project_def)
  show ?thesis
    using exhausted_iteration_stays_exhausted[of ?it two_pages ?log demo_project android page2
        "''iterateAndroidApps()''" 2] a b c d
    unfolding iterateAndroidApps_next_def e
    by (simp add: numeral_2_eq_2)
qed




text \<open>
  C4. An entry whose platform is a non-empty string that names no member of
  \<^verbatim>\<open>AppPlatform\<close> should come out with the platform \<^verbatim>\<open>PLATFORM_UNKNOWN\<close>. The code
  reads \<^verbatim>\<open>(AppPlatform as any)[appJson.platform] || AppPlatform.PLATFORM_UNKNOWN\<close>, and the
  computed read also finds the members an object inherits. For the platform
  \<^verbatim>\<open>constructor\<close>, which names no member of the enum, the call succeeds and the entry's
  platform is the inherited \<^verbatim>\<open>Object\<close> function, not \<^verbatim>\<open>PLATFORM_UNKNOWN\<close>.
\<close>

theorem inherited_platform_name_is_not_unknown:
  "listAppMetadata (answers inherited_platform_listing) demo_project []
     = (Inr [\<lparr>md_appId = ''a1'', md_platform = JNative ''Object'', md_projectId = ''demo'',
              md_resourceName = JUndefined, md_displayName = None\<rparr>],
        [ListAppMetadata ''projects/demo''])
   \<and> JNative ''Object'' \<noteq> PLATFORM_UNKNOWN
   \<and> map_of AppPlatform ''constructor'' = None"
  by (simp add: listAppMetadata_def invoke_def answers_def inherited_platform_listing_def
      demo_project_def transformResponseToAppMetadata_def assertListAppsResponseData_def
      assertServerResponse_def transformResponseToAppMetadata_entry_def AppPlatform_member_def
      AppPlatform_def Object_prototype_def js_or_def PLATFORM_UNKNOWN_def)

text \<open>
  C5. Deleting a certificate whose resourceName is empty or absent fails with the
  \<^verbatim>\<open>invalid-argument\<close> error that says the certificate does not include a resourceName,
  and the log of request-handler invocations is unchanged: no network call is made.
\<close>

theorem delete_without_resourceName_fails_locally:
  "cert_resourceName cert = None \<or> cert_resourceName cert = Some [] \<Longrightarrow>
   deleteShaCertificate h cert log
     = (Inl (FirebaseProjectManagementError ''invalid-argument''
              ''Specified certificate does not include a resourceName'' None), log)"
  by (auto simp: deleteShaCertificate_def)

text \<open>
  A certificate fresh from \<^verbatim>\<open>shaCertificate\<close> has no resourceName.
\<close>

theorem delete_without_resourceName_fails_locally_witness:
  "deleteShaCertificate (answers (JObj [])) (shaCertificate ''aaaacccc'') []
     = (Inl (FirebaseProjectManagementError ''invalid-argument''
              ''Specified certificate does not include a resourceName'' None), [])"
  using delete_without_resourceName_fails_locally[of "shaCertificate ''aaaacccc''" "answers (JObj [])" "[]"]
  by (simp add: shaCertificate_def)

text \<open>
  C6. Every entry of a listing should have a non-empty string appId and platform, and a
  listing with an entry that lacks one should fail with the classified invalid-server-response
  error carrying the raw response. The callback reads \<^verbatim>\<open>appJson.appId\<close> before any
  check of \<^verbatim>\<open>appJson\<close> itself: on the listing whose only entry is \<^verbatim>\<open>null\<close>, which
  has neither field, the call fails with the runtime's \<^verbatim>\<open>TypeError\<close>, which is not
  classified and carries no response.
\<close>

theorem null_entry_raises_TypeError:
  "listAppMetadata (answers null_entry_listing) demo_project []
     = (Inl TypeError, [ListAppMetadata ''projects/demo''])"
  by (simp add: listAppMetadata_def invoke_def answers_def null_entry_listing_def
      demo_project_def transformResponseToAppMetadata_def assertListAppsResponseData_def
      assertServerResponse_def transformResponseToAppMetadata_entry_def)

text \<open>
  C7. \<^verbatim>\<open>createAndroidApp\<close> and \<^verbatim>\<open>createIosApp\<close>: when the request handler's response
  is a non-null object with a non-empty string appId, the call returns the handle with exactly
  that appId; when it is anything else, the call fails with the classified
  invalid-server-response error carrying the raw response. In both cases the request has been
  made: the failure surfaces after the round trip.
\<close>

theorem createApp_validates_response:
  "(h (log @ [CreateAndroidApp (pm_resourceName this) name displayName]) = Inr r \<longrightarrow>
      (isNonNullObject r \<and> isNonEmptyString (field r ''appId'') \<longrightarrow>
         createAndroidApp h this name displayName log
           = (Inr (AndroidApp (str_of (field r ''appId''))),
              log @ [CreateAndroidApp (pm_resourceName this) name displayName]))
      \<and> (\<not> (isNonNullObject r \<and> isNonEmptyString (field r ''appId'')) \<longrightarrow>
         (\<exists>msg. createAndroidApp h this name displayName log
           = (Inl (FirebaseProjectManagementError ''invalid-server-response'' msg (Some r)),
              log @ [CreateAndroidApp (pm_resourceName this) name displayName]))))
   \<and> (h (log @ [CreateIosApp (pm_resourceName this) name displayName]) = Inr r \<longrightarrow>
      (isNonNullObject r \<and> isNonEmptyString (field r ''appId'') \<longrightarrow>
         createIosApp h this name displayName log
           = (Inr (IosApp (str_of (field r ''appId''))),
              log @ [CreateIosApp (pm_resourceName this) name displayName]))
      \<and> (\<not> (isNonNullObject r \<and> isNonEmptyString (field r ''appId'')) \<longrightarrow>
         (\<exists>msg. createIosApp h this name displayName log
           = (Inl (FirebaseProjectManagementError ''invalid-server-response'' msg (Some r)),
              log @ [CreateIosApp (pm_resourceName this) name displayName]))))"
  by (cases r)
    (auto simp: createAndroidApp_def createIosApp_def createAndroidApp_then_def
      createIosApp_then_def invoke_def assertServerResponse_def field_def)

text \<open>
  A response with the appId \<^verbatim>\<open>new1\<close> gives the handle \<^verbatim>\<open>new1\<close>; the response
  \<^verbatim>\<open>null\<close> is rejected after the request was made.
\<close>

theorem createApp_validates_response_witness:
  "createAndroidApp (answers created_response) demo_project (JStr ''com.example'') JUndefined []
     = (Inr (AndroidApp ''new1''),
        [CreateAndroidApp ''projects/demo'' (JStr ''com.example'') JUndefined])
   \<and> (\<exists>msg. createIosApp (answers JNull) demo_project (JStr ''com.example'') JUndefined []
         = (Inl (FirebaseProjectManagementError ''invalid-server-response'' msg (Some JNull)),
            [CreateIosApp ''projects/demo'' (JStr ''com.example'') JUndefined]))"
  using createApp_validates_response[of "answers created_response" "[]" demo_project
      "JStr ''com.example''" JUndefined created_response]
    createApp_validates_response[of "answers JNull" "[]" demo_project
      "JStr ''com.example''" JUndefined JNull]
  by (simp add: answers_def created_response_def field_def demo_project_def)

text \<open>
  C8. A response that is a non-null object without an \<^verbatim>\<open>apps\<close> field is not a
  violation: \<^verbatim>\<open>listAppMetadata\<close> returns the empty array, and a pull that fetches it
  yields an empty batch (with \<^verbatim>\<open>done = false\<close>).
\<close>

theorem absent_apps_is_empty_listing:
  assumes "isNonNullObject r" and "\<not> has_property ''apps'' r"
  shows "(h (log @ [ListAppMetadata (pm_resourceName this)]) = Inr r \<longrightarrow>
            listAppMetadata h this log
              = (Inr [], log @ [ListAppMetadata (pm_resourceName this)]))
       \<and> (fetching it \<and> h (log @ [listApps_request this pf (nextPageToken it)]) = Inr r \<longrightarrow>
            fst (iteratePlatformApps_next h this pf c (it, log))
              = Inr \<lparr>result_done = False, result_value = []\<rparr>)"
proof -
  have ud: "field r ''apps'' = JUndefined" using assms by (rule field_absent)
  have ok: "assertListAppsResponseData r c' = Inr ()" for c'
    using assms(1) ud
    by (simp add: assertListAppsResponseData_def assertServerResponse_def get_prop_obj)
  have a: "transformResponseToAppMetadata this r = Inr []"
    using assms(1) ud ok by (simp add: transformResponseToAppMetadata_def get_prop_obj)
  have b: "page_entries r = []" using ud by (simp add: page_entries_def)
  show ?thesis
    using a b ok next_fetching[of it h log this pf r c]
    by (auto simp: listAppMetadata_def invoke_def)
qed

text \<open>
  The empty object as the response.
\<close>

theorem absent_apps_is_empty_listing_witness:
  "listAppMetadata (answers (JObj [])) demo_project []
     = (Inr [], [ListAppMetadata ''projects/demo''])
   \<and> fst (iterateIosApps_next (answers (JObj [])) demo_project (iteratePlatformApps, []))
     = Inr \<lparr>result_done = False, result_value = []\<rparr>"
  using absent_apps_is_empty_listing[of "JObj []" "answers (JObj [])" "[]" demo_project
      iteratePlatformApps ios "''iterateIosApps()''"]
  unfolding iterateIosApps_next_def
  by (simp add: answers_def demo_project_def iteratePlatformApps_def)

text \<open>
  C9. In a pull, the cursor and the fetching flag are taken from the response before the
  entries are validated. When an entry's appId is not a non-empty string, the pull fails and
  leaves the iterator advanced: its cursor is the response's \<^verbatim>\<open>nextPageToken\<close> and it
  fetches exactly when that token is truthy. The next pull then requests the page of the new
  cursor (the failed page is not fetched again), or, when the response had no token, reports
  completion without a request.
\<close>

theorem failed_pull_advances_iterator:
  assumes "fetching it"
    and "h (log @ [listApps_request this pf (nextPageToken it)]) = Inr r"
    and "assertListAppsResponseData r c = Inr ()"
    and "\<exists>e\<in>set (page_entries r). \<not> isNonEmptyString (field e ''appId'')"
  shows "\<exists>err.
      iteratePlatformApps_next h this pf c (it, log)
        = (Inl err,
           (\<lparr>fetching = truthy (field r ''nextPageToken''),
             nextPageToken = field r ''nextPageToken''\<rparr>,
            log @ [listApps_request this pf (nextPageToken it)]))
      \<and> (if truthy (field r ''nextPageToken'')
         then snd (snd (iteratePlatformApps_next h this pf c
                 (snd (iteratePlatformApps_next h this pf c (it, log)))))
              = log @ [listApps_request this pf (nextPageToken it),
                       listApps_request this pf (field r ''nextPageToken'')]
         else iteratePlatformApps_next h this pf c
                 (snd (iteratePlatformApps_next h this pf c (it, log)))
              = (Inr \<lparr>result_done = True, result_value = []\<rparr>,
                 snd (iteratePlatformApps_next h this pf c (it, log))))"
proof -
  let ?it' = "\<lparr>fetching = truthy (field r ''nextPageToken''),
               nextPageToken = field r ''nextPageToken''\<rparr>"
  let ?log' = "log @ [listApps_request this pf (nextPageToken it)]"
  from assms(4) obtain e where e: "e \<in> set (page_entries r)"
    and bad: "\<not> isNonEmptyString (field e ''appId'')"
    by blast
  from entry_bad[OF bad, of pf c r] obtain err0
    where err0: "iteratePlatformApps_entry pf c r e = Inl err0" by blast
  from map_result_bad[of e "page_entries r" "iteratePlatformApps_entry pf c r" err0] e err0
  obtain err
    where err: "map_result (iteratePlatformApps_entry pf c r) (page_entries r) = Inl err"
    by blast
  have step: "iteratePlatformApps_next h this pf c (it, log) = (Inl err, (?it', ?log'))"
    using next_fetching[of it h log this pf r c] assms(1-3) err by simp
  have after: "if truthy (field r ''nextPageToken'')
      then snd (snd (iteratePlatformApps_next h this pf c (?it', ?log')))
             = ?log' @ [listApps_request this pf (field r ''nextPageToken'')]
      else iteratePlatformApps_next h this pf c (?it', ?log')
             = (Inr \<lparr>result_done = True, result_value = []\<rparr>, (?it', ?log'))"
  proof (cases "truthy (field r ''nextPageToken'')")
    case True
    then show ?thesis using next_log[of ?it' h this pf c ?log'] by simp
  next
    case False
    then show ?thesis using next_exhausted[of ?it' h this pf c ?log'] by simp
  qed
  show ?thesis
    unfolding step using after
    by (cases "truthy (field r ''nextPageToken'')") simp_all
qed

text \<open>
  A page with an empty appId and the token \<^verbatim>\<open>tok\<close>: the pull fails, and the next pull
  asks for the page of \<^verbatim>\<open>tok\<close>.
\<close>

theorem failed_pull_advances_iterator_witness:
  "(\<exists>err. iterateIosApps_next bad_then_good demo_project (iteratePlatformApps, [])
      = (Inl err, (\<lparr>fetching = True, nextPageToken = JStr ''tok''\<rparr>,
                   [ListIosApps ''projects/demo'' JUndefined])))
   \<and> snd (snd (iterateIosApps_next bad_then_good demo_project
          (snd (iterateIosApps_next bad_then_good demo_project (iteratePlatformApps, [])))))
     = [ListIosApps ''projects/demo'' JUndefined, ListIosApps ''projects/demo'' (JStr ''tok'')]"
proof -
  have a: "fetching iteratePlatformApps" by (simp add: iteratePlatformApps_def)
  have b: "bad_then_good ([] @ [listApps_request demo_project ios (nextPageToken iteratePlatformApps)])
             = Inr bad_page"
    by (simp add: bad_then_good_def listApps_request_def demo_project_def iteratePlatformApps_def)
  have c: "assertListAppsResponseData bad_page ''iterateIosApps()'' = Inr ()"
    by (simp add: assertListAppsResponseData_def assertServerResponse_def bad_page_def)
  have d: "\<exists>e\<in>set (page_entries bad_page). \<not> isNonEmptyString (field e ''appId'')"
    by (simp add: page_entries_def bad_page_def field_def)
  have t: "field bad_page ''nextPageToken'' = JStr ''tok''"
    by (simp add: bad_page_def field_def)
  have q: "listApps_request demo_project ios x = ListIosApps ''projects/demo'' x" for x
    by (simp add: listApps_request_def demo_project_def)
  show ?thesis
    using failed_pull_advances_iterator[of iteratePlatformApps bad_then_good "[]" demo_project ios
        bad_page "''iterateIosApps()''"] a b c d
    unfolding iterateIosApps_next_def t q
    by (simp add: iteratePlatformApps_def)
qed

text \<open>
  C10. \<^verbatim>\<open>listAppMetadata\<close> copies each entry's \<^verbatim>\<open>name\<close> into the resourceName
  without a check: when every entry has a non-empty string appId and platform the call
  succeeds, and the resourceName of each result is whatever the entry holds under
  \<^verbatim>\<open>name\<close>, \<^verbatim>\<open>undefined\<close> when it holds nothing and any non-string value as it is.
\<close>

theorem resourceName_is_not_validated:
  assumes "h (log @ [ListAppMetadata (pm_resourceName this)]) = Inr r"
    and "isNonNullObject r"
    and "field r ''apps'' = JArr es"
    and "list_all (\<lambda>e. isNonEmptyString (field e ''appId'')
                        \<and> isNonEmptyString (field e ''platform'')) es"
  shows "\<exists>ms. listAppMetadata h this log
                = (Inr ms, log @ [ListAppMetadata (pm_resourceName this)])
             \<and> map md_resourceName ms = map (\<lambda>e. field e ''name'') es"
proof -
  let ?g = "\<lambda>e. \<lparr>md_appId = str_of (field e ''appId''),
            md_platform = js_or (AppPlatform_member (str_of (field e ''platform''))) PLATFORM_UNKNOWN,
            md_projectId = pm_projectId this,
            md_resourceName = field e ''name'',
            md_displayName = (if truthy (field e ''displayName'')
                              then Some (field e ''displayName'') else None)\<rparr>"
  have "list_all (\<lambda>e. transformResponseToAppMetadata_entry this r e = Inr (?g e)) es"
    using assms(4) by (auto simp: list_all_iff md_entry_ok)
  then have "map_result (transformResponseToAppMetadata_entry this r) es = Inr (map ?g es)"
    by (rule map_result_ok)
  then have "listAppMetadata h this log
               = (Inr (map ?g es), log @ [ListAppMetadata (pm_resourceName this)])"
    using assms(1-3) by (simp add: listAppMetadata_def invoke_def transform_array)
  then show ?thesis by (simp add: comp_def)
qed

text \<open>
  Two entries, one without a name and one whose name is the number 7.
\<close>

theorem resourceName_is_not_validated_witness:
  "\<exists>ms. listAppMetadata (answers unnamed_listing) demo_project []
           = (Inr ms, [ListAppMetadata ''projects/demo''])
        \<and> map md_resourceName ms = [JUndefined, JNum 7]"
proof -
  have a: "answers unnamed_listing ([] @ [ListAppMetadata (pm_resourceName demo_project)])
             = Inr unnamed_listing"
    by (simp add: answers_def)
  have b: "isNonNullObject unnamed_listing" by (simp add: unnamed_listing_def)
  have c: "field unnamed_listing ''apps''
     = JArr [JObj [(''appId'', JStr ''a1''), (''platform'', JStr ''IOS'')],
             JObj [(''appId'', JStr ''a2''), (''platform'', JStr ''ANDROID''), (''name'', JNum 7)]]"
    by (simp add: unnamed_listing_def field_def)
  have d: "list_all (\<lambda>e. isNonEmptyString (field e ''appId'')
                        \<and> isNonEmptyString (field e ''platform''))
             [JObj [(''appId'', JStr ''a1''), (''platform'', JStr ''IOS'')],
              JObj [(''appId'', JStr ''a2''), (''platform'', JStr ''ANDROID''), (''name'', JNum 7)]]"
    by (simp add: field_def)
  show ?thesis
    using resourceName_is_not_validated[of "answers unnamed_listing" "[]" demo_project
        unnamed_listing _, OF a b c d]
    by (simp add: field_def demo_project_def)
qed

end
